theory Spec2Isabelle
  imports Main "HOL-Library.AList"
begin

section \<open>TextMate worker synchronisation (textMateService.ts)\<close>

text \<open>
  A shallow embedding of \<^verbatim>\<open>src/vs/workbench/services/textMate/electron-browser/textMateService.ts\<close>:
  the class \<^verbatim>\<open>ModelWorkerTextMateTokenizer\<close> (one synchronizer per text buffer) and the
  class \<^verbatim>\<open>TextMateService\<close> (the worker lifecycle manager and the buffer registry bridge).
  Calls on the worker proxy are fire-and-forget, so a method that talks to the worker
  returns the list of calls it made, in order.
\<close>

subsection \<open>Buffers and worker calls\<close>

text \<open>
  The five fields of the object literal passed to \<^verbatim>\<open>acceptNewModel\<close> in \<^verbatim>\<open>_beginSync\<close>.
  URIs are kept in their string form (\<^verbatim>\<open>uri.toString()\<close>), language identifiers are the
  numeric \<^verbatim>\<open>getLanguageIdentifier().id\<close>.
\<close>

record IRawModelData =
  uri :: string
  versionId :: nat
  lines :: "string list"
  EOL :: string
  languageId :: nat

text \<open>
  What the file reads of an \<^verbatim>\<open>ITextModel\<close>: \<^verbatim>\<open>uri\<close>, \<^verbatim>\<open>getVersionId()\<close>,
  \<^verbatim>\<open>getLinesContent()\<close>, \<^verbatim>\<open>getEOL()\<close>, \<^verbatim>\<open>getLanguageIdentifier().id\<close> (the fields above),
  \<^verbatim>\<open>isAttachedToEditor()\<close> and \<^verbatim>\<open>isTooLargeForSyncing()\<close>. The buffer is mutated by the
  editor, never by this file.
\<close>

record ITextModel = IRawModelData +
  isAttachedToEditor :: bool
  isTooLargeForSyncing :: bool

text \<open>
  Modelled from the spec: the type \<^verbatim>\<open>IModelContentChangedEvent\<close> is declared outside the
  sources. The spec describes a change event as an ordered sequence of edits, each carrying
  the replaced range and the new text, with the resulting version. The file never looks
  inside an event: it only passes it on.
\<close>

record IModelContentChange =
  c_range :: "nat \<times> nat \<times> nat \<times> nat"
  c_text :: string

record IModelContentChangedEvent =
  changes :: "IModelContentChange list"
  e_versionId :: nat

text \<open>The four methods of the \<^verbatim>\<open>TextMateWorker\<close> proxy that the file calls.\<close>

datatype worker_call =
    acceptNewModel IRawModelData
  | acceptModelChanged string IModelContentChangedEvent
  | acceptModelLanguageChanged string nat
  | acceptRemovedModel string

fun call_uri :: "worker_call \<Rightarrow> string" where
  "call_uri (acceptNewModel d) = uri d"
| "call_uri (acceptModelChanged u e) = u"
| "call_uri (acceptModelLanguageChanged u l) = u"
| "call_uri (acceptRemovedModel u) = u"

subsection \<open>ModelWorkerTextMateTokenizer\<close>

text \<open>
  The object's fields. \<open>t_worker\<close> is \<^verbatim>\<open>_worker\<close>, the identity of the worker proxy the
  synchronizer was constructed with. \<open>t_model\<close> is \<^verbatim>\<open>_model\<close>: the field is a reference to
  the live buffer, so it always holds the buffer's current value, and an outside change of
  the buffer is an update of this field (see \<open>deliver\<close>). \<open>isSynced\<close> is \<^verbatim>\<open>_isSynced\<close>.
  \<open>registered\<close> is the state inherited from \<^verbatim>\<open>Disposable\<close>: true while the three listeners
  passed to \<^verbatim>\<open>_register\<close> are subscribed.
\<close>

record ModelWorkerTextMateTokenizer =
  t_worker :: nat
  t_model :: ITextModel
  isSynced :: bool
  registered :: bool

definition beginSync ::
  "ModelWorkerTextMateTokenizer \<Rightarrow> ModelWorkerTextMateTokenizer \<times> worker_call list" where
  "beginSync t =
     (t\<lparr>isSynced := True\<rparr>,
      [acceptNewModel \<lparr>uri = uri (t_model t),
                       versionId = versionId (t_model t),
                       lines = lines (t_model t),
                       EOL = EOL (t_model t),
                       languageId = languageId (t_model t)\<rparr>])"

definition endSync ::
  "ModelWorkerTextMateTokenizer \<Rightarrow> ModelWorkerTextMateTokenizer \<times> worker_call list" where
  "endSync t = (t, [acceptRemovedModel (uri (t_model t))])"

definition onDidChangeAttached ::
  "ModelWorkerTextMateTokenizer \<Rightarrow> ModelWorkerTextMateTokenizer \<times> worker_call list" where
  "onDidChangeAttached t =
     (if isAttachedToEditor (t_model t)
      then (if \<not> isSynced t then beginSync t else (t, []))
      else (if isSynced t then endSync t else (t, [])))"

definition onDidChangeContent ::
  "IModelContentChangedEvent \<Rightarrow> ModelWorkerTextMateTokenizer
     \<Rightarrow> ModelWorkerTextMateTokenizer \<times> worker_call list" where
  "onDidChangeContent e t =
     (if isSynced t then (t, [acceptModelChanged (uri (t_model t)) e]) else (t, []))"

definition onDidChangeLanguage ::
  "ModelWorkerTextMateTokenizer \<Rightarrow> ModelWorkerTextMateTokenizer \<times> worker_call list" where
  "onDidChangeLanguage t =
     (if isSynced t
      then (t, [acceptModelLanguageChanged (uri (t_model t)) (languageId (t_model t))])
      else (t, []))"

text \<open>
  The constructor: the fields are set, the listeners are registered, and
  \<^verbatim>\<open>_onDidChangeAttached()\<close> is called once. No event can arrive between the statements
  of the constructor, so registering the three listeners is one step.
\<close>

definition new_tokenizer ::
  "nat \<Rightarrow> ITextModel \<Rightarrow> ModelWorkerTextMateTokenizer \<times> worker_call list" where
  "new_tokenizer w m =
     onDidChangeAttached \<lparr>t_worker = w, t_model = m, isSynced = False, registered = True\<rparr>"

text \<open>
  Modelled from the spec: the base class \<^verbatim>\<open>Disposable\<close> (vs/base/common/lifecycle) is not
  among the sources. The spec says that disposal unsubscribes all notifications and that
  releasing a subscription unsubscribes exactly once, idempotently: \<^verbatim>\<open>super.dispose()\<close>
  leaves the synchronizer unsubscribed whatever it was before.
\<close>

definition Disposable_dispose :: "ModelWorkerTextMateTokenizer \<Rightarrow> ModelWorkerTextMateTokenizer" where
  "Disposable_dispose t = t\<lparr>registered := False\<rparr>"

text \<open>\<^verbatim>\<open>dispose()\<close>: \<^verbatim>\<open>super.dispose()\<close>, then \<^verbatim>\<open>this._endSync()\<close>.\<close>

definition dispose ::
  "ModelWorkerTextMateTokenizer \<Rightarrow> ModelWorkerTextMateTokenizer \<times> worker_call list" where
  "dispose t = endSync (Disposable_dispose t)"

text \<open>
  The three notifications of a buffer the constructor subscribes to. The language change
  event carries nothing the listener reads.
\<close>

datatype notification = DidChangeAttached | DidChangeContent IModelContentChangedEvent | DidChangeLanguage

text \<open>
  Modelled from the spec: the event emitters of \<^verbatim>\<open>ITextModel\<close> are not among the sources.
  Firing a notification calls the listener the constructor registered for it when the
  synchronizer is still subscribed, and does nothing otherwise.
\<close>

definition fire ::
  "notification \<Rightarrow> ModelWorkerTextMateTokenizer
     \<Rightarrow> ModelWorkerTextMateTokenizer \<times> worker_call list" where
  "fire n t =
     (if \<not> registered t then (t, [])
      else (case n of
              DidChangeAttached \<Rightarrow> onDidChangeAttached t
            | DidChangeContent e \<Rightarrow> onDidChangeContent e t
            | DidChangeLanguage \<Rightarrow> onDidChangeLanguage t))"

text \<open>
  Modelled from the spec: a buffer is mutated from outside and the core only observes it.
  One outside change: the buffer takes its new value, then the notification is fired.
\<close>

definition deliver ::
  "ITextModel \<times> notification \<Rightarrow> ModelWorkerTextMateTokenizer
     \<Rightarrow> ModelWorkerTextMateTokenizer \<times> worker_call list" where
  "deliver ev t = fire (snd ev) (t\<lparr>t_model := fst ev\<rparr>)"

text \<open>A sequence of outside changes, the calls made collected in order.\<close>

fun deliverAll ::
  "(ITextModel \<times> notification) list \<Rightarrow> ModelWorkerTextMateTokenizer
     \<Rightarrow> ModelWorkerTextMateTokenizer \<times> worker_call list" where
  "deliverAll [] t = (t, [])"
| "deliverAll (ev # evs) t =
     (let (t1, cs1) = deliver ev t; (t2, cs2) = deliverAll evs t1 in (t2, cs1 @ cs2))"

subsection \<open>TextMateService\<close>

text \<open>
  The module-level constant of the file.
\<close>

definition RUN_TEXTMATE_IN_WORKER :: bool where
  "RUN_TEXTMATE_IN_WORKER = False"

text \<open>
  Modelled from the spec: \<^verbatim>\<open>IConfigurationService\<close> is not among the sources. The spec
  describes the configuration as exposing a single boolean toggle for worker-offload mode.
\<close>

record IConfigurationService =
  workerOffload :: bool

text \<open>
  The state of the service and of what it drives. \<open>worker\<close>, \<open>workerProxy\<close> and
  \<open>tokenizers\<close> are the fields \<^verbatim>\<open>_worker\<close>, \<^verbatim>\<open>_workerProxy\<close> and \<^verbatim>\<open>_tokenizers\<close>; the
  object used as a dictionary is a list of entries in insertion order, which is the order
  of \<^verbatim>\<open>Object.keys\<close>. A worker is identified by the number of its \<^verbatim>\<open>createWebWorker\<close>
  call, and its proxy carries the same number. The rest records the collaborators:
  \<open>models\<close> is what \<^verbatim>\<open>_modelService.getModels()\<close> returns, \<open>created\<close> the grammar definitions
  each \<^verbatim>\<open>createWebWorker\<close> call was given, \<open>pending\<close> the workers whose \<^verbatim>\<open>getProxy()\<close>
  future has not resolved yet, \<open>disposedWorkers\<close> the workers \<^verbatim>\<open>dispose()\<close> was called on,
  \<open>disposedTokenizers\<close> the synchronizers \<^verbatim>\<open>dispose()\<close> was called on, one entry per call,
  each as the call left it (the service drops its reference to a synchronizer it has
  disposed, the object itself lives on as long as a buffer still holds one of its
  listeners), and \<open>sent\<close> every call made on a proxy, with the proxy it was made on, in
  order.
  The type \<open>'g\<close> is \<^verbatim>\<open>IValidGrammarDefinition\<close>, declared elsewhere and only passed on.
\<close>

record 'g TextMateService =
  models :: "ITextModel list"
  worker :: "nat option"
  workerProxy :: "nat option"
  tokenizers :: "(string \<times> ModelWorkerTextMateTokenizer) list"
  created :: "'g list list"
  pending :: "nat list"
  disposedWorkers :: "nat list"
  disposedTokenizers :: "ModelWorkerTextMateTokenizer list"
  sent :: "(nat \<times> worker_call) list"

definition send :: "nat \<Rightarrow> worker_call list \<Rightarrow> 'g TextMateService \<Rightarrow> 'g TextMateService" where
  "send p cs s = s\<lparr>sent := sent s @ map (Pair p) cs\<rparr>"

definition onModelAdded :: "ITextModel \<Rightarrow> 'g TextMateService \<Rightarrow> 'g TextMateService" where
  "onModelAdded model s =
     (case workerProxy s of
        None \<Rightarrow> s
      | Some proxy \<Rightarrow>
          if isTooLargeForSyncing model then s
          else (let key = uri model;
                    (tokenizer, cs) = new_tokenizer proxy model
                in (send proxy cs s)\<lparr>tokenizers := AList.update key tokenizer (tokenizers s)\<rparr>))"

text \<open>
  A call \<^verbatim>\<open>this._tokenizers[key].dispose()\<close>: the synchronizer runs its \<^verbatim>\<open>dispose\<close>, the
  calls it makes go to the proxy it holds, and the object is recorded as the call left it.
\<close>

definition disposeTokenizer ::
  "ModelWorkerTextMateTokenizer \<Rightarrow> 'g TextMateService \<Rightarrow> 'g TextMateService" where
  "disposeTokenizer t s =
     (let (t1, cs) = dispose t
      in (send (t_worker t) cs s)\<lparr>disposedTokenizers := disposedTokenizers s @ [t1]\<rparr>)"

definition onModelRemoved :: "ITextModel \<Rightarrow> 'g TextMateService \<Rightarrow> 'g TextMateService" where
  "onModelRemoved model s =
     (let key = uri model in
      case map_of (tokenizers s) key of
        None \<Rightarrow> s
      | Some t \<Rightarrow>
          (disposeTokenizer t s)\<lparr>tokenizers := AList.delete key (tokenizers s)\<rparr>)"

text \<open>
  The loop of \<^verbatim>\<open>_killWorker\<close>: \<^verbatim>\<open>dispose()\<close> on the value of every key, in the order of
  \<^verbatim>\<open>Object.keys\<close>. The dictionary itself is replaced right after the loop.
\<close>

fun disposeTokenizers ::
  "(string \<times> ModelWorkerTextMateTokenizer) list \<Rightarrow> 'g TextMateService \<Rightarrow> 'g TextMateService" where
  "disposeTokenizers [] s = s"
| "disposeTokenizers ((key, t) # kts) s = disposeTokenizers kts (disposeTokenizer t s)"

definition killWorker :: "'g TextMateService \<Rightarrow> 'g TextMateService" where
  "killWorker s =
     (let s1 = disposeTokenizers (tokenizers s) s;
          s2 = s1\<lparr>tokenizers := []\<rparr>;
          s3 = (case worker s2 of
                  Some w \<Rightarrow> s2\<lparr>disposedWorkers := disposedWorkers s2 @ [w], worker := None\<rparr>
                | None \<Rightarrow> s2)
      in s3\<lparr>workerProxy := None\<rparr>)"

text \<open>\<^verbatim>\<open>this._modelService.getModels().forEach((model) => this._onModelAdded(model))\<close>\<close>

fun forEach_onModelAdded :: "ITextModel list \<Rightarrow> 'g TextMateService \<Rightarrow> 'g TextMateService" where
  "forEach_onModelAdded [] s = s"
| "forEach_onModelAdded (model # ms) s = forEach_onModelAdded ms (onModelAdded model s)"

text \<open>
  The callback given to \<^verbatim>\<open>worker.getProxy().then\<close> in \<^verbatim>\<open>_onDidCreateGrammarFactory\<close>; the
  first argument is the \<^verbatim>\<open>worker\<close> the closure captured.
\<close>

definition onProxyResolved :: "nat \<Rightarrow> nat \<Rightarrow> 'g TextMateService \<Rightarrow> 'g TextMateService" where
  "onProxyResolved w proxy s =
     (if worker s \<noteq> Some w then s
      else forEach_onModelAdded (models s) (s\<lparr>workerProxy := Some proxy\<rparr>))"

text \<open>
  \<^verbatim>\<open>_onDidCreateGrammarFactory\<close> with the value of the constant it tests as a parameter, and
  as the file has it.
\<close>

definition onDidCreateGrammarFactory_with ::
  "bool \<Rightarrow> 'g list \<Rightarrow> 'g TextMateService \<Rightarrow> 'g TextMateService" where
  "onDidCreateGrammarFactory_with runInWorker grammarDefinitions s =
     (let s1 = killWorker s in
      if runInWorker
      then (let w = length (created s1)
            in s1\<lparr>created := created s1 @ [grammarDefinitions],
                  worker := Some w,
                  pending := pending s1 @ [w]\<rparr>)
      else s1)"

definition onDidCreateGrammarFactory :: "'g list \<Rightarrow> 'g TextMateService \<Rightarrow> 'g TextMateService" where
  "onDidCreateGrammarFactory grammarDefinitions s =
     onDidCreateGrammarFactory_with RUN_TEXTMATE_IN_WORKER grammarDefinitions s"

definition onDidDisposeGrammarFactory :: "'g TextMateService \<Rightarrow> 'g TextMateService" where
  "onDidDisposeGrammarFactory s = killWorker s"

text \<open>
  The constructor. The configuration service is handed to the base class; nothing of it
  is read in this file.
\<close>

definition TextMateService_new ::
  "IConfigurationService \<Rightarrow> ITextModel list \<Rightarrow> 'g TextMateService" where
  "TextMateService_new configurationService ms =
     forEach_onModelAdded ms
       \<lparr>models = ms, worker = None, workerProxy = None, tokenizers = [],
        created = [], pending = [], disposedWorkers = [], disposedTokenizers = [],
        sent = []\<rparr>"

subsection \<open>The events that drive the service\<close>

text \<open>
  Modelled from the spec: the buffer registry, the grammar factory and the future of
  \<^verbatim>\<open>getProxy()\<close> are collaborators outside the sources. A buffer has a unique URI, so a
  buffer is added only under a URI the registry does not hold; a removed buffer leaves the
  registry before the service is told; a change of a buffer replaces its value and fires
  the notification at the synchronizer registered for it; a future resolves once, for a
  worker that was created.
\<close>

datatype 'g event =
    ModelAdded ITextModel
  | ModelRemoved string
  | ModelChanged ITextModel notification
  | GrammarFactoryCreated "'g list"
  | GrammarFactoryDisposed
  | ProxyResolved nat

definition notify :: "ITextModel \<Rightarrow> notification \<Rightarrow> 'g TextMateService \<Rightarrow> 'g TextMateService" where
  "notify m n s =
     (case map_of (tokenizers s) (uri m) of
        None \<Rightarrow> s
      | Some t \<Rightarrow>
          (let (t1, cs) = deliver (m, n) t
           in (send (t_worker t) cs s)\<lparr>tokenizers := AList.update (uri m) t1 (tokenizers s)\<rparr>))"

fun step :: "bool \<Rightarrow> 'g event \<Rightarrow> 'g TextMateService \<Rightarrow> 'g TextMateService" where
  "step runInWorker (ModelAdded m) s =
     (if uri m \<in> set (map uri (models s)) then s
      else onModelAdded m (s\<lparr>models := models s @ [m]\<rparr>))"
| "step runInWorker (ModelRemoved u) s =
     (case find (\<lambda>m. uri m = u) (models s) of
        None \<Rightarrow> s
      | Some m \<Rightarrow> onModelRemoved m (s\<lparr>models := filter (\<lambda>x. uri x \<noteq> u) (models s)\<rparr>))"
| "step runInWorker (ModelChanged m n) s =
     (if uri m \<in> set (map uri (models s))
      then notify m n (s\<lparr>models := map (\<lambda>x. if uri x = uri m then m else x) (models s)\<rparr>)
      else s)"
| "step runInWorker (GrammarFactoryCreated defs) s = onDidCreateGrammarFactory_with runInWorker defs s"
| "step runInWorker GrammarFactoryDisposed s = onDidDisposeGrammarFactory s"
| "step runInWorker (ProxyResolved w) s =
     (if w \<in> set (pending s) then onProxyResolved w w (s\<lparr>pending := removeAll w (pending s)\<rparr>)
      else s)"

fun run :: "bool \<Rightarrow> 'g event list \<Rightarrow> 'g TextMateService \<Rightarrow> 'g TextMateService" where
  "run runInWorker [] s = s"
| "run runInWorker (ev # evs) s = run runInWorker evs (step runInWorker ev s)"

subsection \<open>Notions used in the statements\<close>

text \<open>The snapshot \<^verbatim>\<open>_beginSync\<close> sends for a buffer.\<close>

abbreviation snapshot :: "ITextModel \<Rightarrow> IRawModelData" where
  "snapshot m \<equiv>
     \<lparr>uri = uri m, versionId = versionId m, lines = lines m, EOL = EOL m,
      languageId = languageId m\<rparr>"

text \<open>The buffers an event carries.\<close>

fun event_models :: "'g event \<Rightarrow> ITextModel list" where
  "event_models (ModelAdded m) = [m]"
| "event_models (ModelChanged m n) = [m]"
| "event_models ev = []"

text \<open>Every buffer of the list that has the URI \<open>u\<close> is too large for syncing.\<close>

definition oversized_at :: "string \<Rightarrow> ITextModel list \<Rightarrow> bool" where
  "oversized_at u ms = (\<forall>m\<in>set ms. uri m = u \<longrightarrow> isTooLargeForSyncing m)"

text \<open>
  No synchronizer is registered under \<open>u\<close>, every registered synchronizer stands under the
  URI of its buffer, and no call sent so far is about \<open>u\<close>.
\<close>

definition quiet_at :: "string \<Rightarrow> 'g TextMateService \<Rightarrow> bool" where
  "quiet_at u s =
     ((\<forall>kt\<in>set (tokenizers s). fst kt \<noteq> u \<and> uri (t_model (snd kt)) = fst kt) \<and>
      (\<forall>pc\<in>set (sent s). call_uri (snd pc) \<noteq> u))"

text \<open>
  What holds of the service between two events: the registry's URIs are distinct, there
  is no synchronizer while no proxy is resolved, and a resolved proxy is the live worker's
  and its future is no longer pending.
\<close>

definition resolution_ready :: "'g TextMateService \<Rightarrow> bool" where
  "resolution_ready s =
     (distinct (map uri (models s)) \<and>
      (workerProxy s = None \<longrightarrow> tokenizers s = []) \<and>
      (\<forall>p. workerProxy s = Some p \<longrightarrow> worker s = Some p \<and> p \<notin> set (pending s)))"

subsection \<open>Example buffers, edits and states\<close>

text \<open>
  An attached buffer, a detached one and an attached oversized one; two edit batches; the
  synchronizer constructed for the attached buffer; and the service constructed over the
  three buffers after a grammar-set created event with the worker enabled, its proxy not
  yet resolved.
\<close>

definition bufA :: ITextModel where
  "bufA = \<lparr>uri = ''file:///a.ts'', versionId = 1, lines = [''let x''], EOL = [CHR 0x0A],
           languageId = 7, isAttachedToEditor = True, isTooLargeForSyncing = False\<rparr>"

definition bufB :: ITextModel where
  "bufB = \<lparr>uri = ''file:///b.ts'', versionId = 4, lines = [''b''], EOL = [CHR 0x0A],
           languageId = 7, isAttachedToEditor = False, isTooLargeForSyncing = False\<rparr>"

definition bufBig :: ITextModel where
  "bufBig = \<lparr>uri = ''file:///big.ts'', versionId = 1, lines = [''big''], EOL = [CHR 0x0A],
             languageId = 7, isAttachedToEditor = True, isTooLargeForSyncing = True\<rparr>"

definition edit1 :: IModelContentChangedEvent where
  "edit1 = \<lparr>changes = [\<lparr>c_range = (1, 6, 1, 6), c_text = '' = 1''\<rparr>], e_versionId = 2\<rparr>"

definition edit2 :: IModelContentChangedEvent where
  "edit2 = \<lparr>changes = [\<lparr>c_range = (1, 1, 1, 4), c_text = ''const''\<rparr>], e_versionId = 3\<rparr>"

definition tokA :: ModelWorkerTextMateTokenizer where
  "tokA = fst (new_tokenizer 0 bufA)"

definition svc1 :: "unit TextMateService" where
  "svc1 = onDidCreateGrammarFactory_with True []
            (TextMateService_new \<lparr>workerOffload = True\<rparr> [bufA, bufB, bufBig])"

text \<open>
  A run in which the oversized buffer is known from the start, the worker is spawned and
  its proxy resolves, and the buffer is detached, attached, edited, removed and added
  again, before the attached buffer \<open>bufA\<close> is added.
\<close>

definition bigRun :: "unit event list" where
  "bigRun =
     [GrammarFactoryCreated [], ProxyResolved 0,
      ModelChanged (bufBig\<lparr>isAttachedToEditor := False\<rparr>) DidChangeAttached,
      ModelChanged bufBig DidChangeAttached,
      ModelChanged (bufBig\<lparr>versionId := 2\<rparr>) (DidChangeContent edit1),
      ModelRemoved ''file:///big.ts'',
      ModelAdded bufBig,
      ModelAdded bufA]"

section \<open>The synchronizer\<close>

subsection \<open>Closed forms of the methods\<close>

lemma new_tokenizer_eq:
  "new_tokenizer p m =
     (\<lparr>t_worker = p, t_model = m, isSynced = isAttachedToEditor m, registered = True\<rparr>,
      if isAttachedToEditor m then [acceptNewModel (snapshot m)] else [])"
  by (simp add: new_tokenizer_def onDidChangeAttached_def beginSync_def)

lemma dispose_eq:
  "dispose t = (t\<lparr>registered := False\<rparr>, [acceptRemovedModel (uri (t_model t))])"
  by (simp add: dispose_def endSync_def Disposable_dispose_def)

lemma tokA_simp: "tokA = \<lparr>t_worker = 0, t_model = bufA, isSynced = True, registered = True\<rparr>"
  by (simp add: tokA_def new_tokenizer_eq bufA_def)

lemma deliver_content:
  "registered t \<Longrightarrow>
   deliver (m, DidChangeContent e) t =
     (t\<lparr>t_model := m\<rparr>, if isSynced t then [acceptModelChanged (uri m) e] else [])"
  by (simp add: deliver_def fire_def onDidChangeContent_def)

lemma deliver_detached_unsynced:
  "\<not> isSynced t \<Longrightarrow> \<not> isAttachedToEditor (fst ev) \<Longrightarrow>
   deliver ev t = (t\<lparr>t_model := fst ev\<rparr>, [])"
  by (cases "snd ev")
     (simp_all add: deliver_def fire_def onDidChangeAttached_def onDidChangeContent_def
        onDidChangeLanguage_def)

lemma deliverAll_detached_unsynced:
  "\<not> isSynced t \<Longrightarrow> \<forall>ev\<in>set evs. \<not> isAttachedToEditor (fst ev) \<Longrightarrow>
   deliverAll evs t = (t\<lparr>t_model := last (t_model t # map fst evs)\<rparr>, [])"
proof (induction evs arbitrary: t)
  case Nil
  then show ?case by simp
next
  case (Cons ev evs)
  have u: "\<not> isSynced (t\<lparr>t_model := fst ev\<rparr>)" using Cons.prems by simp
  show ?case using Cons.IH [OF u] Cons.prems by (simp add: deliver_detached_unsynced)
qed

lemma deliver_attach_unsynced:
  "\<not> isSynced t \<Longrightarrow> registered t \<Longrightarrow> isAttachedToEditor m \<Longrightarrow>
   deliver (m, DidChangeAttached) t =
     (t\<lparr>t_model := m, isSynced := True\<rparr>, [acceptNewModel (snapshot m)])"
  by (simp add: deliver_def fire_def onDidChangeAttached_def beginSync_def)

lemma deliverAll_append:
  "deliverAll (xs @ ys) t =
     (let (t1, cs1) = deliverAll xs t; (t2, cs2) = deliverAll ys t1 in (t2, cs1 @ cs2))"
  by (induction xs arbitrary: t) (simp_all split: prod.splits)

lemma deliver_calls: "c \<in> set (snd (deliver (m, n) t)) \<Longrightarrow> call_uri c = uri m"
  by (cases n)
     (auto simp: deliver_def fire_def onDidChangeAttached_def onDidChangeContent_def
        onDidChangeLanguage_def beginSync_def endSync_def split: if_splits)

lemma deliver_model: "t_model (fst (deliver (m, n) t)) = m"
  by (cases n)
     (auto simp: deliver_def fire_def onDidChangeAttached_def onDidChangeContent_def
        onDidChangeLanguage_def beginSync_def endSync_def split: if_splits)

subsection \<open>The synced flag across a detach\<close>

text \<open>
  C1. The synced flag of a synchronizer is true exactly when its buffer is attached and a
  worker proxy is resolved; in particular a detach while synced returns the synchronizer
  to the unsynced state. The code does not do this: \<^verbatim>\<open>_endSync\<close> sends the removal and
  leaves \<^verbatim>\<open>_isSynced\<close> as it was, and nothing else in the class ever sets it to false.
  Evaluated on the synchronizer constructed for the attached buffer \<open>bufA\<close> (so synced),
  when the buffer is detached and the attach notification is fired: the removal is sent,
  the buffer is detached, and the flag is still true.
\<close>

theorem detach_leaves_synced_flag_set:
  "isSynced tokA \<and>
   isSynced (fst (deliver (bufA\<lparr>isAttachedToEditor := False\<rparr>, DidChangeAttached) tokA)) \<and>
   \<not> isAttachedToEditor
       (t_model (fst (deliver (bufA\<lparr>isAttachedToEditor := False\<rparr>, DidChangeAttached) tokA))) \<and>
   snd (deliver (bufA\<lparr>isAttachedToEditor := False\<rparr>, DidChangeAttached) tokA) =
     [acceptRemovedModel ''file:///a.ts'']"
  by (simp add: tokA_simp deliver_def fire_def onDidChangeAttached_def endSync_def bufA_def)

text \<open>
  C2. For a synced buffer, a detach sends a removal, content changes while it stays
  detached send nothing, and a re-attach sends a fresh snapshot at the version the buffer
  then has. The code sends the removal, but since the flag stays set it forwards the edit
  made while detached and sends no snapshot at the re-attach: the three changes below yield
  the removal followed by the edit, and nothing for the re-attach at version 2.
\<close>

theorem detached_edit_forwarded_and_reattach_silent:
  "snd (deliverAll
      [(bufA\<lparr>isAttachedToEditor := False\<rparr>, DidChangeAttached),
       (bufA\<lparr>isAttachedToEditor := False, versionId := 2, lines := [''let x = 1'']\<rparr>,
        DidChangeContent edit1),
       (bufA\<lparr>versionId := 2, lines := [''let x = 1'']\<rparr>, DidChangeAttached)] tokA)
   = [acceptRemovedModel ''file:///a.ts'', acceptModelChanged ''file:///a.ts'' edit1]"
  by (simp add: tokA_simp deliver_def fire_def onDidChangeAttached_def onDidChangeContent_def
      endSync_def beginSync_def bufA_def)

subsection \<open>Content changes\<close>

text \<open>
  C3. Content-change events delivered while the synchronizer is unsynced produce no worker
  call at all, and the synchronizer keeps nothing of them; delivered while it is synced,
  they produce exactly one \<^verbatim>\<open>acceptModelChanged\<close> call per edit batch, carrying the event as
  it came, in the order of emission. Here \<open>xs\<close> are the edit batches, each with the value
  the buffer has when the batch is emitted.
\<close>

theorem content_changes_forwarded_iff_synced:
  "registered t \<Longrightarrow>
   deliverAll (map (\<lambda>(m, e). (m, DidChangeContent e)) xs) t =
     (t\<lparr>t_model := last (t_model t # map fst xs)\<rparr>,
      if isSynced t then map (\<lambda>(m, e). acceptModelChanged (uri m) e) xs else [])"
proof (induction xs arbitrary: t)
  case Nil
  then show ?case by simp
next
  case (Cons x xs)
  obtain m e where x: "x = (m, e)" by (cases x)
  have r: "registered (t\<lparr>t_model := m\<rparr>)" using Cons.prems by simp
  show ?case
    using Cons.IH [OF r] Cons.prems
    by (simp add: x deliver_content)
qed

text \<open>Two edit batches, delivered to a synced and to an unsynced synchronizer.\<close>

theorem content_changes_forwarded_iff_synced_witness:
  "registered tokA \<and>
   snd (deliverAll [(bufA\<lparr>versionId := 2\<rparr>, DidChangeContent edit1),
                    (bufA\<lparr>versionId := 3\<rparr>, DidChangeContent edit2)] tokA)
     = [acceptModelChanged ''file:///a.ts'' edit1, acceptModelChanged ''file:///a.ts'' edit2] \<and>
   snd (deliverAll [(bufA\<lparr>versionId := 2\<rparr>, DidChangeContent edit1),
                    (bufA\<lparr>versionId := 3\<rparr>, DidChangeContent edit2)]
          (tokA\<lparr>isSynced := False\<rparr>))
     = []"
proof -
  have r: "registered tokA" by (simp add: tokA_simp)
  have r': "registered (tokA\<lparr>isSynced := False\<rparr>)" by (simp add: tokA_simp)
  show ?thesis
    using r
      content_changes_forwarded_iff_synced [OF r,
        of "[(bufA\<lparr>versionId := 2\<rparr>, edit1), (bufA\<lparr>versionId := 3\<rparr>, edit2)]"]
      content_changes_forwarded_iff_synced [OF r',
        of "[(bufA\<lparr>versionId := 2\<rparr>, edit1), (bufA\<lparr>versionId := 3\<rparr>, edit2)]"]
    by (simp add: tokA_simp bufA_def)
qed

subsection \<open>Order of the calls for one buffer\<close>

text \<open>
  C4. The calls a synchronizer makes for its buffer are causally ordered: the snapshot
  comes before any edit or language change, every edit comes before the removal, and no
  edit or language change is sent after a removal and before a new snapshot. The code
  breaks the last part, again because \<^verbatim>\<open>_endSync\<close> leaves the flag set: from construction
  on, a detach, then an edit and a language change while detached, give the snapshot, the
  removal, and then the edit and the language change with no snapshot in between.
\<close>

theorem edit_and_language_change_sent_after_removal:
  "snd (new_tokenizer 0 bufA) @
   snd (deliverAll
      [(bufA\<lparr>isAttachedToEditor := False\<rparr>, DidChangeAttached),
       (bufA\<lparr>isAttachedToEditor := False, versionId := 2, lines := [''let x = 1'']\<rparr>,
        DidChangeContent edit1),
       (bufA\<lparr>isAttachedToEditor := False, versionId := 2, lines := [''let x = 1''],
             languageId := 9\<rparr>, DidChangeLanguage)] tokA)
   = [acceptNewModel \<lparr>uri = ''file:///a.ts'', versionId = 1, lines = [''let x''],
                       EOL = [CHR 0x0A], languageId = 7\<rparr>,
      acceptRemovedModel ''file:///a.ts'',
      acceptModelChanged ''file:///a.ts'' edit1,
      acceptModelLanguageChanged ''file:///a.ts'' 9]"
  by (simp add: tokA_simp new_tokenizer_def deliver_def fire_def onDidChangeAttached_def
      onDidChangeContent_def onDidChangeLanguage_def endSync_def beginSync_def bufA_def)

subsection \<open>Disposal\<close>

text \<open>
  C7, as stated: disposing unsubscribes and sends one removal whatever the synced flag, and
  disposal and \<^verbatim>\<open>_endSync\<close> are idempotent, a repeated call causing no additional effect.
  The last part fails: \<^verbatim>\<open>dispose\<close> calls \<^verbatim>\<open>_endSync\<close> unconditionally and \<^verbatim>\<open>_endSync\<close>
  sends unconditionally, so a second call sends a second removal.
\<close>

theorem second_dispose_sends_second_removal:
  "\<not> (snd (dispose tokA) @ snd (dispose (fst (dispose tokA))) = snd (dispose tokA)) \<and>
   \<not> (snd (endSync tokA) @ snd (endSync (fst (endSync tokA))) = snd (endSync tokA))"
  by (simp add: dispose_def endSync_def)

text \<open>
  C7, amended: disposing a synchronizer unsubscribes all its notifications (a notification
  fired afterwards does nothing) and sends exactly one removal for its buffer's URI,
  whatever the synced flag. Unsubscribing is idempotent. Disposing again leaves the
  synchronizer unsubscribed, and every further call of \<^verbatim>\<open>dispose\<close> or \<^verbatim>\<open>_endSync\<close> sends
  one more removal for the same URI.
\<close>

theorem dispose_unsubscribes_and_sends_removal:
  "registered (fst (dispose t)) = False \<and>
   t_model (fst (dispose t)) = t_model t \<and>
   snd (dispose t) = [acceptRemovedModel (uri (t_model t))] \<and>
   fire n (fst (dispose t)) = (fst (dispose t), []) \<and>
   registered (fst (dispose (fst (dispose t)))) = False \<and>
   snd (dispose (fst (dispose t))) = [acceptRemovedModel (uri (t_model t))] \<and>
   snd (endSync t) = [acceptRemovedModel (uri (t_model t))] \<and>
   snd (endSync (fst (endSync t))) = [acceptRemovedModel (uri (t_model t))] \<and>
   Disposable_dispose (Disposable_dispose t) = Disposable_dispose t"
  by (simp add: dispose_def endSync_def Disposable_dispose_def fire_def)

text \<open>Disposal of a synced and of an unsynced synchronizer, and a second disposal.\<close>

theorem dispose_unsubscribes_and_sends_removal_witness:
  "snd (dispose tokA) = [acceptRemovedModel ''file:///a.ts''] \<and>
   snd (dispose (tokA\<lparr>isSynced := False\<rparr>)) = [acceptRemovedModel ''file:///a.ts''] \<and>
   snd (fire (DidChangeContent edit1) (fst (dispose tokA))) = [] \<and>
   snd (dispose (fst (dispose tokA))) = [acceptRemovedModel ''file:///a.ts'']"
  using dispose_unsubscribes_and_sends_removal [of tokA "DidChangeContent edit1"]
    dispose_unsubscribes_and_sends_removal [of "tokA\<lparr>isSynced := False\<rparr>" "DidChangeContent edit1"]
  by (simp add: tokA_simp bufA_def)

subsection \<open>Construction\<close>

text \<open>
  C10. The constructor evaluates the attach state of the buffer at once. Constructed for
  an attached buffer, the synchronizer sends the full snapshot at construction and is
  synced. Constructed for a detached buffer, it sends nothing and is unsynced; whatever
  notifications follow while the buffer stays detached send nothing either; and the first
  attach notification for the attached buffer sends the snapshot of the buffer as it then
  is. (The calls are those of the constructor and of the buffer's notifications; the
  removal sent by \<^verbatim>\<open>dispose\<close> is the subject of C7.)
\<close>

theorem constructor_evaluates_attach_state:
  "(isAttachedToEditor m \<longrightarrow>
      new_tokenizer w m =
        (\<lparr>t_worker = w, t_model = m, isSynced = True, registered = True\<rparr>,
         [acceptNewModel (snapshot m)])) \<and>
   (\<not> isAttachedToEditor m \<longrightarrow>
      new_tokenizer w m =
        (\<lparr>t_worker = w, t_model = m, isSynced = False, registered = True\<rparr>, []) \<and>
      (\<forall>evs. (\<forall>ev\<in>set evs. \<not> isAttachedToEditor (fst ev)) \<longrightarrow>
         snd (deliverAll evs (fst (new_tokenizer w m))) = [] \<and>
         (\<forall>m'. isAttachedToEditor m' \<longrightarrow>
            deliverAll (evs @ [(m', DidChangeAttached)]) (fst (new_tokenizer w m)) =
              (\<lparr>t_worker = w, t_model = m', isSynced = True, registered = True\<rparr>,
               [acceptNewModel (snapshot m')]))))"
proof (intro conjI impI allI)
  assume "isAttachedToEditor m"
  then show "new_tokenizer w m =
        (\<lparr>t_worker = w, t_model = m, isSynced = True, registered = True\<rparr>,
         [acceptNewModel (snapshot m)])"
    by (simp add: new_tokenizer_eq)
next
  assume d: "\<not> isAttachedToEditor m"
  then show n: "new_tokenizer w m =
        (\<lparr>t_worker = w, t_model = m, isSynced = False, registered = True\<rparr>, [])"
    by (simp add: new_tokenizer_eq)
  fix evs :: "(ITextModel \<times> notification) list"
  assume q: "\<forall>ev\<in>set evs. \<not> isAttachedToEditor (fst ev)"
  let ?t = "\<lparr>t_worker = w, t_model = m, isSynced = False, registered = True\<rparr>"
  have u: "\<not> isSynced ?t" by simp
  have e: "deliverAll evs ?t = (?t\<lparr>t_model := last (m # map fst evs)\<rparr>, [])"
    using deliverAll_detached_unsynced [OF u q] by simp
  show "snd (deliverAll evs (fst (new_tokenizer w m))) = []"
    by (simp add: n e)
  fix m' :: ITextModel
  assume a: "isAttachedToEditor m'"
  have "deliver (m', DidChangeAttached) (?t\<lparr>t_model := last (m # map fst evs)\<rparr>) =
          (\<lparr>t_worker = w, t_model = m', isSynced = True, registered = True\<rparr>,
           [acceptNewModel (snapshot m')])"
    using deliver_attach_unsynced [of "?t\<lparr>t_model := last (m # map fst evs)\<rparr>" m'] a by simp
  then show "deliverAll (evs @ [(m', DidChangeAttached)]) (fst (new_tokenizer w m)) =
              (\<lparr>t_worker = w, t_model = m', isSynced = True, registered = True\<rparr>,
               [acceptNewModel (snapshot m')])"
    by (simp add: n e deliverAll_append)
qed

text \<open>
  Construction for the attached buffer; construction for its detached copy, followed by an
  edit while detached and then the attach at version 2.
\<close>

theorem constructor_evaluates_attach_state_witness:
  "isAttachedToEditor bufA \<and>
   snd (new_tokenizer 0 bufA) =
     [acceptNewModel \<lparr>uri = ''file:///a.ts'', versionId = 1, lines = [''let x''],
                       EOL = [CHR 0x0A], languageId = 7\<rparr>] \<and>
   \<not> isAttachedToEditor (bufA\<lparr>isAttachedToEditor := False\<rparr>) \<and>
   snd (new_tokenizer 0 (bufA\<lparr>isAttachedToEditor := False\<rparr>)) = [] \<and>
   snd (deliverAll [(bufA\<lparr>isAttachedToEditor := False, versionId := 2\<rparr>, DidChangeContent edit1),
                    (bufA\<lparr>versionId := 2\<rparr>, DidChangeAttached)]
          (fst (new_tokenizer 0 (bufA\<lparr>isAttachedToEditor := False\<rparr>)))) =
     [acceptNewModel \<lparr>uri = ''file:///a.ts'', versionId = 2, lines = [''let x''],
                       EOL = [CHR 0x0A], languageId = 7\<rparr>]"
proof -
  have a: "isAttachedToEditor bufA" by (simp add: bufA_def)
  have d: "\<not> isAttachedToEditor (bufA\<lparr>isAttachedToEditor := False\<rparr>)" by simp
  have q: "\<forall>ev\<in>set [(bufA\<lparr>isAttachedToEditor := False, versionId := 2\<rparr>, DidChangeContent edit1)].
             \<not> isAttachedToEditor (fst ev)" by simp
  have a2: "isAttachedToEditor (bufA\<lparr>versionId := 2\<rparr>)" by (simp add: bufA_def)
  note c1 = constructor_evaluates_attach_state [of bufA 0, THEN conjunct1, THEN mp, OF a]
  note c2 = constructor_evaluates_attach_state [of "bufA\<lparr>isAttachedToEditor := False\<rparr>" 0,
      THEN conjunct2, THEN mp, OF d]
  note c3 = c2 [THEN conjunct2, THEN spec,
      of "[(bufA\<lparr>isAttachedToEditor := False, versionId := 2\<rparr>, DidChangeContent edit1)]",
      THEN mp, OF q, THEN conjunct2, THEN spec, of "bufA\<lparr>versionId := 2\<rparr>", THEN mp, OF a2]
  show ?thesis
    using a c1 c2 [THEN conjunct1] c3 by (simp add: bufA_def)
qed

section \<open>The service\<close>

subsection \<open>Closed forms\<close>

lemma disposeTokenizer_eq:
  "disposeTokenizer t s =
     s\<lparr>sent := sent s @ [(t_worker t, acceptRemovedModel (uri (t_model t)))],
       disposedTokenizers := disposedTokenizers s @ [t\<lparr>registered := False\<rparr>]\<rparr>"
  by (simp add: disposeTokenizer_def dispose_eq send_def)

lemma disposeTokenizers_eq:
  "disposeTokenizers kts s =
     s\<lparr>sent := sent s @ map (\<lambda>(key, t). (t_worker t, acceptRemovedModel (uri (t_model t)))) kts,
       disposedTokenizers :=
         disposedTokenizers s @ map (\<lambda>(key, t). t\<lparr>registered := False\<rparr>) kts\<rparr>"
proof (induction kts arbitrary: s)
  case Nil
  then show ?case by simp
next
  case (Cons kt kts)
  obtain key t where kt: "kt = (key, t)" by (cases kt)
  show ?case by (simp add: kt Cons.IH disposeTokenizer_eq)
qed

lemma disposed_all_unregistered:
  "map registered (map (\<lambda>(key, t). t\<lparr>registered := False\<rparr>) kts) = replicate (length kts) False"
  by (induction kts) auto

lemma disposed_all_silent:
  "concat (map (\<lambda>t. snd (fire n t)) (map (\<lambda>(key, t). t\<lparr>registered := False\<rparr>) kts)) = []"
  by (induction kts) (auto simp: fire_def)

lemma disposed_as_dispose:
  "map (\<lambda>(key, t). t\<lparr>registered := False\<rparr>) kts = map (\<lambda>(key, t). fst (dispose t)) kts"
  by (induction kts) (auto simp: dispose_eq)

lemma killWorker_eq:
  "killWorker s =
     s\<lparr>tokenizers := [], worker := None, workerProxy := None,
       sent := sent s @ map (\<lambda>(key, t). (t_worker t, acceptRemovedModel (uri (t_model t)))) (tokenizers s),
       disposedTokenizers :=
         disposedTokenizers s @ map (\<lambda>(key, t). t\<lparr>registered := False\<rparr>) (tokenizers s),
       disposedWorkers := disposedWorkers s @ (case worker s of Some w \<Rightarrow> [w] | None \<Rightarrow> [])\<rparr>"
  by (cases "worker s") (simp_all add: killWorker_def disposeTokenizers_eq)

lemma new_service_eq:
  "(TextMateService_new cfg ms :: 'g TextMateService) =
     \<lparr>models = ms, worker = None, workerProxy = None, tokenizers = [],
      created = [], pending = [], disposedWorkers = [], disposedTokenizers = [], sent = []\<rparr>"
proof -
  have "workerProxy s = None \<Longrightarrow> forEach_onModelAdded ms s = s" for s :: "'g TextMateService"
    by (induction ms arbitrary: s) (simp_all add: onModelAdded_def)
  then show ?thesis by (simp add: TextMateService_new_def)
qed

lemma update_fresh:
  "k \<notin> fst ` set al \<Longrightarrow> AList.update k v al = al @ [(k, v)]"
  by (induction al) auto

lemma forEach_onModelAdded_eq:
  "workerProxy s = Some p \<Longrightarrow> distinct (map uri ms) \<Longrightarrow>
   \<forall>m\<in>set ms. uri m \<notin> fst ` set (tokenizers s) \<Longrightarrow>
   forEach_onModelAdded ms s =
     s\<lparr>tokenizers := tokenizers s @
          map (\<lambda>m. (uri m, fst (new_tokenizer p m))) (filter (\<lambda>m. \<not> isTooLargeForSyncing m) ms),
       sent := sent s @
          map (\<lambda>m. (p, acceptNewModel (snapshot m)))
            (filter (\<lambda>m. \<not> isTooLargeForSyncing m \<and> isAttachedToEditor m) ms)\<rparr>"
proof (induction ms arbitrary: s)
  case Nil
  then show ?case by simp
next
  case (Cons m ms)
  show ?case
  proof (cases "isTooLargeForSyncing m")
    case True
    then have "onModelAdded m s = s" using Cons.prems(1) by (simp add: onModelAdded_def)
    then show ?thesis using Cons True by simp
  next
    case False
    let ?s1 = "onModelAdded m s"
    have fresh: "uri m \<notin> fst ` set (tokenizers s)" using Cons.prems(3) by simp
    have upd: "AList.update (uri m) v (tokenizers s) = tokenizers s @ [(uri m, v)]" for v
      using fresh by (rule update_fresh)
    have s1: "?s1 = s\<lparr>tokenizers := tokenizers s @ [(uri m, fst (new_tokenizer p m))],
                      sent := sent s @ (if isAttachedToEditor m then [(p, acceptNewModel (snapshot m))] else [])\<rparr>"
      using Cons.prems(1) False by (simp add: onModelAdded_def new_tokenizer_eq send_def upd)
    have p1: "workerProxy ?s1 = Some p" by (simp add: s1 Cons.prems(1))
    have d1: "distinct (map uri ms)" using Cons.prems(2) by simp
    have f1: "\<forall>m'\<in>set ms. uri m' \<notin> fst ` set (tokenizers ?s1)"
      using Cons.prems(2,3) by (auto simp: s1 image_iff)
    show ?thesis
      using Cons.IH [OF p1 d1 f1] False by (simp add: s1)
  qed
qed

lemma svc1_simp:
  "svc1 = \<lparr>models = [bufA, bufB, bufBig], worker = Some 0, workerProxy = None, tokenizers = [],
           created = [[]], pending = [0], disposedWorkers = [], disposedTokenizers = [],
           sent = []\<rparr>"
  by (simp add: svc1_def onDidCreateGrammarFactory_with_def TextMateService_new_def
      onModelAdded_def killWorker_def)

lemma svc1_run:
  "svc1 = run True [GrammarFactoryCreated []] (TextMateService_new \<lparr>workerOffload = True\<rparr> [bufA, bufB, bufBig])"
  by (simp add: svc1_def)

lemma svc2_eq:
  "onProxyResolved 0 0 svc1 =
     \<lparr>models = [bufA, bufB, bufBig], worker = Some 0, workerProxy = Some 0,
      tokenizers =
        [(''file:///a.ts'', \<lparr>t_worker = 0, t_model = bufA, isSynced = True, registered = True\<rparr>),
         (''file:///b.ts'', \<lparr>t_worker = 0, t_model = bufB, isSynced = False, registered = True\<rparr>)],
      created = [[]], pending = [0], disposedWorkers = [], disposedTokenizers = [],
      sent = [(0, acceptNewModel (snapshot bufA))]\<rparr>"
  by (simp add: svc1_simp onProxyResolved_def onModelAdded_def new_tokenizer_eq send_def Let_def
      bufA_def bufB_def bufBig_def)

subsection \<open>Killing the worker\<close>

text \<open>
  C6. \<^verbatim>\<open>_killWorker\<close> disposes every synchronizer of the dictionary exactly once, each
  sending its unconditional removal (one removal per entry, in the order of the keys, on
  the proxy the synchronizer holds); it leaves the dictionary empty, disposes the worker
  instance if there is one, and clears the worker and the proxy references. With no worker
  present nothing is disposed and the worker reference stays empty. The registry, the
  workers created and the pending futures are not touched. Disposed means: for every entry
  of the dictionary, in the order of the keys, one call of \<^verbatim>\<open>dispose\<close> is recorded, and the
  synchronizers these calls leave behind are all unsubscribed, so that a notification fired
  at any of them afterwards makes no call.
\<close>

theorem killWorker_disposes_all_and_clears:
  "tokenizers (killWorker s) = [] \<and>
   sent (killWorker s) =
     sent s @ map (\<lambda>(key, t). (t_worker t, acceptRemovedModel (uri (t_model t)))) (tokenizers s) \<and>
   worker (killWorker s) = None \<and>
   workerProxy (killWorker s) = None \<and>
   disposedWorkers (killWorker s) =
     disposedWorkers s @ (case worker s of Some w \<Rightarrow> [w] | None \<Rightarrow> []) \<and>
   models (killWorker s) = models s \<and>
   created (killWorker s) = created s \<and>
   pending (killWorker s) = pending s \<and>
   (worker s = None \<longrightarrow>
      worker (killWorker s) = worker s \<and> disposedWorkers (killWorker s) = disposedWorkers s) \<and>
   disposedTokenizers (killWorker s) =
     disposedTokenizers s @ map (\<lambda>(key, t). fst (dispose t)) (tokenizers s) \<and>
   map registered (drop (length (disposedTokenizers s)) (disposedTokenizers (killWorker s))) =
     replicate (length (tokenizers s)) False \<and>
   concat (map (\<lambda>t. snd (fire n t))
     (drop (length (disposedTokenizers s)) (disposedTokenizers (killWorker s)))) = []"
proof -
  have d: "disposedTokenizers (killWorker s) =
      disposedTokenizers s @ map (\<lambda>(key, t). t\<lparr>registered := False\<rparr>) (tokenizers s)"
    by (simp add: killWorker_eq)
  have dr: "drop (length (disposedTokenizers s)) (disposedTokenizers (killWorker s)) =
      map (\<lambda>(key, t). t\<lparr>registered := False\<rparr>) (tokenizers s)"
    by (simp add: d)
  have a: "disposedTokenizers (killWorker s) =
      disposedTokenizers s @ map (\<lambda>(key, t). fst (dispose t)) (tokenizers s)"
    by (simp only: d disposed_as_dispose)
  have b: "map registered (drop (length (disposedTokenizers s)) (disposedTokenizers (killWorker s))) =
      replicate (length (tokenizers s)) False"
    by (simp only: dr disposed_all_unregistered)
  have c: "concat (map (\<lambda>t. snd (fire n t))
      (drop (length (disposedTokenizers s)) (disposedTokenizers (killWorker s)))) = []"
    by (simp only: dr disposed_all_silent)
  have r: "tokenizers (killWorker s) = [] \<and>
   sent (killWorker s) =
     sent s @ map (\<lambda>(key, t). (t_worker t, acceptRemovedModel (uri (t_model t)))) (tokenizers s) \<and>
   worker (killWorker s) = None \<and>
   workerProxy (killWorker s) = None \<and>
   disposedWorkers (killWorker s) =
     disposedWorkers s @ (case worker s of Some w \<Rightarrow> [w] | None \<Rightarrow> []) \<and>
   models (killWorker s) = models s \<and>
   created (killWorker s) = created s \<and>
   pending (killWorker s) = pending s \<and>
   (worker s = None \<longrightarrow>
      worker (killWorker s) = worker s \<and> disposedWorkers (killWorker s) = disposedWorkers s)"
    by (simp add: killWorker_eq)
  from r a b c show ?thesis by (intro conjI) (erule conjE | assumption)+
qed

text \<open>
  Killing the worker whose proxy has resolved over the three example buffers, which has two
  subscribed synchronizers, and killing once more with no worker and no synchronizer left.
\<close>

theorem killWorker_disposes_all_and_clears_witness:
  "map fst (tokenizers (onProxyResolved 0 0 svc1)) = [''file:///a.ts'', ''file:///b.ts''] \<and>
   map registered (map snd (tokenizers (onProxyResolved 0 0 svc1))) = [True, True] \<and>
   disposedTokenizers (onProxyResolved 0 0 svc1) = [] \<and>
   sent (killWorker (onProxyResolved 0 0 svc1)) =
     sent (onProxyResolved 0 0 svc1) @
       [(0, acceptRemovedModel ''file:///a.ts''), (0, acceptRemovedModel ''file:///b.ts'')] \<and>
   tokenizers (killWorker (onProxyResolved 0 0 svc1)) = [] \<and>
   map (\<lambda>t. (uri (t_model t), registered t))
     (disposedTokenizers (killWorker (onProxyResolved 0 0 svc1))) =
     [(''file:///a.ts'', False), (''file:///b.ts'', False)] \<and>
   concat (map (\<lambda>t. snd (fire (DidChangeContent edit1) t))
     (disposedTokenizers (killWorker (onProxyResolved 0 0 svc1)))) = [] \<and>
   disposedWorkers (killWorker (onProxyResolved 0 0 svc1)) = [0] \<and>
   worker (killWorker (onProxyResolved 0 0 svc1)) = None \<and>
   disposedWorkers (killWorker (killWorker (onProxyResolved 0 0 svc1))) = [0] \<and>
   disposedTokenizers (killWorker (killWorker (onProxyResolved 0 0 svc1))) =
     disposedTokenizers (killWorker (onProxyResolved 0 0 svc1)) \<and>
   sent (killWorker (killWorker (onProxyResolved 0 0 svc1))) =
     sent (killWorker (onProxyResolved 0 0 svc1))"
proof -
  note k1 = killWorker_disposes_all_and_clears
    [of "onProxyResolved 0 0 svc1" "DidChangeContent edit1"]
  have n: "worker (killWorker (onProxyResolved 0 0 svc1)) = None" using k1 by simp
  note k2 = killWorker_disposes_all_and_clears
    [of "killWorker (onProxyResolved 0 0 svc1)" "DidChangeContent edit1"]
  note k3 = k2 [THEN conjunct2, THEN conjunct2, THEN conjunct2, THEN conjunct2, THEN conjunct2,
      THEN conjunct2, THEN conjunct2, THEN conjunct2, THEN conjunct1, THEN mp, OF n]
  have t: "tokenizers (killWorker (onProxyResolved 0 0 svc1)) = []" using k1 by simp
  have s2: "sent (killWorker (killWorker (onProxyResolved 0 0 svc1))) =
     sent (killWorker (onProxyResolved 0 0 svc1))"
    using k2 t by simp
  have g2: "disposedTokenizers (killWorker (killWorker (onProxyResolved 0 0 svc1))) =
     disposedTokenizers (killWorker (onProxyResolved 0 0 svc1))"
    using k2 t by simp
  have d1: "disposedWorkers (killWorker (onProxyResolved 0 0 svc1)) = [0]"
    using k1 by (simp add: svc2_eq)
  have s1: "sent (killWorker (onProxyResolved 0 0 svc1)) =
     sent (onProxyResolved 0 0 svc1) @
       [(0, acceptRemovedModel ''file:///a.ts''), (0, acceptRemovedModel ''file:///b.ts'')]"
    using k1 by (simp add: svc2_eq bufA_def bufB_def)
  have g1: "map (\<lambda>t. (uri (t_model t), registered t))
     (disposedTokenizers (killWorker (onProxyResolved 0 0 svc1))) =
     [(''file:///a.ts'', False), (''file:///b.ts'', False)]"
    using k1 by (simp add: svc2_eq dispose_eq bufA_def bufB_def)
  have f1: "concat (map (\<lambda>t. snd (fire (DidChangeContent edit1) t))
     (disposedTokenizers (killWorker (onProxyResolved 0 0 svc1)))) = []"
    using k1 by (simp add: svc2_eq)
  show ?thesis
    using s1 t d1 n k3 s2 g1 g2 f1 by (simp add: svc2_eq)
qed

subsection \<open>Invariants of a run\<close>

lemma set_update_subset: "set (AList.update k v al) \<subseteq> insert (k, v) (set al)"
  by (induction al) auto

lemma set_delete_subset: "set (AList.delete k al) \<subseteq> set al"
  by (induction al) auto

lemma quiet_send:
  "quiet_at u s \<Longrightarrow> \<forall>c\<in>set cs. call_uri c \<noteq> u \<Longrightarrow> quiet_at u (send p cs s)"
  by (auto simp: quiet_at_def send_def)

lemma quiet_tokenizers_update:
  "quiet_at u s \<Longrightarrow> k \<noteq> u \<Longrightarrow> uri (t_model t) = k \<Longrightarrow>
   quiet_at u (s\<lparr>tokenizers := AList.update k t (tokenizers s)\<rparr>)"
  using set_update_subset [of k t "tokenizers s"] by (auto simp: quiet_at_def)

lemma quiet_tokenizers_delete:
  "quiet_at u s \<Longrightarrow> quiet_at u (s\<lparr>tokenizers := AList.delete k (tokenizers s)\<rparr>)"
  using set_delete_subset [of k "tokenizers s"] by (auto simp: quiet_at_def)

lemma quiet_onModelAdded:
  assumes "quiet_at u s" and "uri m = u \<longrightarrow> isTooLargeForSyncing m"
  shows "quiet_at u (onModelAdded m s)"
proof (cases "workerProxy s")
  case None
  then show ?thesis using assms by (simp add: onModelAdded_def)
next
  case (Some p)
  show ?thesis
  proof (cases "isTooLargeForSyncing m")
    case True
    then show ?thesis using assms Some by (simp add: onModelAdded_def)
  next
    case False
    then have ne: "uri m \<noteq> u" using assms(2) by auto
    have q1: "quiet_at u (send p (if isAttachedToEditor m then [acceptNewModel (snapshot m)] else []) s)"
      using assms(1) ne by (intro quiet_send) auto
    have "quiet_at u ((send p (if isAttachedToEditor m then [acceptNewModel (snapshot m)] else []) s)
        \<lparr>tokenizers := AList.update (uri m)
            \<lparr>t_worker = p, t_model = m, isSynced = isAttachedToEditor m, registered = True\<rparr>
            (tokenizers (send p (if isAttachedToEditor m then [acceptNewModel (snapshot m)] else []) s))\<rparr>)"
      using q1 ne by (intro quiet_tokenizers_update) auto
    then show ?thesis
      using Some False by (simp add: onModelAdded_def new_tokenizer_eq send_def)
  qed
qed

lemma quiet_forEach_onModelAdded:
  "quiet_at u s \<Longrightarrow> oversized_at u ms \<Longrightarrow> quiet_at u (forEach_onModelAdded ms s)"
proof (induction ms arbitrary: s)
  case Nil
  then show ?case by simp
next
  case (Cons m ms)
  have 1: "quiet_at u (onModelAdded m s)"
    using Cons.prems by (intro quiet_onModelAdded) (auto simp: oversized_at_def)
  have 2: "oversized_at u ms" using Cons.prems(2) by (simp add: oversized_at_def)
  show ?case using Cons.IH [OF 1 2] by simp
qed

lemma models_onModelAdded: "models (onModelAdded m s) = models s"
  by (simp add: onModelAdded_def send_def split: option.splits prod.splits)

lemma models_forEach_onModelAdded: "models (forEach_onModelAdded ms s) = models s"
  by (induction ms arbitrary: s) (simp_all add: models_onModelAdded)

lemma quiet_onModelRemoved:
  assumes "quiet_at u s"
  shows "quiet_at u (onModelRemoved m s)"
proof (cases "map_of (tokenizers s) (uri m)")
  case None
  then show ?thesis using assms by (simp add: onModelRemoved_def)
next
  case (Some t)
  then have "(uri m, t) \<in> set (tokenizers s)" by (rule map_of_SomeD)
  then have ne: "uri (t_model t) \<noteq> u" using assms by (auto simp: quiet_at_def)
  have "quiet_at u (send (t_worker t) [acceptRemovedModel (uri (t_model t))] s)"
    using assms ne by (intro quiet_send) auto
  then have "quiet_at u ((send (t_worker t) [acceptRemovedModel (uri (t_model t))] s)
      \<lparr>tokenizers := AList.delete (uri m)
         (tokenizers (send (t_worker t) [acceptRemovedModel (uri (t_model t))] s))\<rparr>)"
    by (rule quiet_tokenizers_delete)
  then show ?thesis
    using Some by (simp add: onModelRemoved_def disposeTokenizer_eq send_def quiet_at_def)
qed

lemma models_onModelRemoved: "models (onModelRemoved m s) = models s"
  by (simp add: onModelRemoved_def disposeTokenizer_eq Let_def split: option.splits)

lemma quiet_notify:
  assumes "quiet_at u s"
  shows "quiet_at u (notify m n s)"
proof (cases "map_of (tokenizers s) (uri m)")
  case None
  then show ?thesis using assms by (simp add: notify_def)
next
  case (Some t)
  then have "(uri m, t) \<in> set (tokenizers s)" by (rule map_of_SomeD)
  then have ne: "uri m \<noteq> u" using assms by (auto simp: quiet_at_def)
  obtain t1 cs where d: "deliver (m, n) t = (t1, cs)" by (cases "deliver (m, n) t")
  have cs: "\<forall>c\<in>set cs. call_uri c \<noteq> u" using deliver_calls [of _ m n t] d ne by auto
  have t1: "uri (t_model t1) = uri m" using deliver_model [of m n t] d by simp
  have "quiet_at u (send (t_worker t) cs s)" using assms cs by (rule quiet_send)
  then have "quiet_at u ((send (t_worker t) cs s)
      \<lparr>tokenizers := AList.update (uri m) t1 (tokenizers (send (t_worker t) cs s))\<rparr>)"
    using ne t1 by (intro quiet_tokenizers_update) auto
  then show ?thesis using Some d by (simp add: notify_def send_def)
qed

lemma models_notify: "models (notify m n s) = models s"
  by (simp add: notify_def send_def split: option.splits prod.splits)

lemma quiet_killWorker:
  assumes "quiet_at u s"
  shows "quiet_at u (killWorker s)"
  using assms by (auto simp: killWorker_eq quiet_at_def)

lemma models_killWorker: "models (killWorker s) = models s"
  by (simp add: killWorker_eq)

lemma quiet_fields:
  "quiet_at u (s\<lparr>models := a\<rparr>) = quiet_at u s"
  "quiet_at u (s\<lparr>pending := b\<rparr>) = quiet_at u s"
  "quiet_at u (s\<lparr>created := c\<rparr>) = quiet_at u s"
  "quiet_at u (s\<lparr>worker := d\<rparr>) = quiet_at u s"
  "quiet_at u (s\<lparr>workerProxy := e\<rparr>) = quiet_at u s"
  "quiet_at u (s\<lparr>disposedTokenizers := f\<rparr>) = quiet_at u s"
  by (simp_all add: quiet_at_def)

lemma step_never_syncs_oversized:
  assumes q: "quiet_at u s" and o: "oversized_at u (models s)"
    and e: "oversized_at u (event_models ev)"
  shows "quiet_at u (step flag ev s) \<and> oversized_at u (models (step flag ev s))"
proof (cases ev)
  case (ModelAdded m)
  have m: "uri m = u \<longrightarrow> isTooLargeForSyncing m" using e ModelAdded by (simp add: oversized_at_def)
  have "quiet_at u (onModelAdded m (s\<lparr>models := models s @ [m]\<rparr>))"
    using q m by (intro quiet_onModelAdded) (simp_all add: quiet_fields)
  then show ?thesis
    using q o m ModelAdded by (auto simp: models_onModelAdded oversized_at_def)
next
  case (ModelRemoved v)
  show ?thesis
  proof (cases "find (\<lambda>m. uri m = v) (models s)")
    case None
    then show ?thesis using q o ModelRemoved by simp
  next
    case (Some m)
    have "quiet_at u (onModelRemoved m (s\<lparr>models := filter (\<lambda>x. uri x \<noteq> v) (models s)\<rparr>))"
      using q by (intro quiet_onModelRemoved) (simp add: quiet_fields)
    then show ?thesis
      using o ModelRemoved Some by (auto simp: models_onModelRemoved oversized_at_def)
  qed
next
  case (ModelChanged m n)
  have m: "uri m = u \<longrightarrow> isTooLargeForSyncing m" using e ModelChanged by (simp add: oversized_at_def)
  have "quiet_at u (notify m n (s\<lparr>models := map (\<lambda>x. if uri x = uri m then m else x) (models s)\<rparr>))"
    using q by (intro quiet_notify) (simp add: quiet_fields)
  then show ?thesis
    using q o m ModelChanged by (auto simp: models_notify oversized_at_def)
next
  case (GrammarFactoryCreated defs)
  have "quiet_at u (killWorker s)" using q by (rule quiet_killWorker)
  then show ?thesis
    using o GrammarFactoryCreated
    by (simp add: onDidCreateGrammarFactory_with_def Let_def quiet_fields models_killWorker)
next
  case GrammarFactoryDisposed
  then show ?thesis
    using q o by (simp add: onDidDisposeGrammarFactory_def quiet_killWorker models_killWorker)
next
  case (ProxyResolved w)
  show ?thesis
  proof (cases "w \<in> set (pending s) \<and> worker s = Some w")
    case False
    then show ?thesis using q o ProxyResolved by (auto simp: onProxyResolved_def quiet_fields)
  next
    case True
    have "quiet_at u (forEach_onModelAdded (models s)
            (s\<lparr>pending := removeAll w (pending s), workerProxy := Some w\<rparr>))"
      using q o by (intro quiet_forEach_onModelAdded) (simp_all add: quiet_fields)
    then show ?thesis
      using True o ProxyResolved by (simp add: onProxyResolved_def models_forEach_onModelAdded)
  qed
qed

lemma run_never_syncs_oversized:
  "quiet_at u s \<Longrightarrow> oversized_at u (models s) \<Longrightarrow>
   \<forall>ev\<in>set evs. oversized_at u (event_models ev) \<Longrightarrow>
   quiet_at u (run flag evs s)"
proof (induction evs arbitrary: s)
  case Nil
  then show ?case by simp
next
  case (Cons ev evs)
  have e: "oversized_at u (event_models ev)" using Cons.prems(3) by simp
  note st = step_never_syncs_oversized [OF Cons.prems(1,2) e, of flag]
  show ?case
    using Cons.IH [OF st [THEN conjunct1] st [THEN conjunct2]] Cons.prems(3) by simp
qed

lemma distinct_replace:
  "distinct (map uri (map (\<lambda>x. if uri x = uri m then m else x) ms)) = distinct (map uri ms)"
proof -
  have "map uri (map (\<lambda>x. if uri x = uri m then m else x) ms) = map uri ms"
    by (induction ms) simp_all
  then show ?thesis by (rule arg_cong)
qed

lemma step_resolution_ready:
  assumes r: "resolution_ready s"
  shows "resolution_ready (step flag ev s)"
proof (cases ev)
  case (ModelAdded m)
  show ?thesis
  proof (cases "workerProxy s")
    case None
    then show ?thesis using r ModelAdded
      by (auto simp: resolution_ready_def onModelAdded_def)
  next
    case (Some p)
    then show ?thesis using r ModelAdded
      by (auto simp: resolution_ready_def onModelAdded_def send_def new_tokenizer_eq Let_def)
  qed
next
  case (ModelRemoved v)
  show ?thesis
  proof (cases "workerProxy s")
    case None
    then show ?thesis using r ModelRemoved
      by (auto simp: resolution_ready_def onModelRemoved_def disposeTokenizer_eq
          distinct_map_filter split: option.splits)
  next
    case (Some p)
    then show ?thesis using r ModelRemoved
      by (auto simp: resolution_ready_def onModelRemoved_def disposeTokenizer_eq Let_def
          distinct_map_filter split: option.splits)
  qed
next
  case (ModelChanged m n)
  show ?thesis
  proof (cases "workerProxy s")
    case None
    then show ?thesis using r ModelChanged distinct_replace [of m "models s"]
      by (auto simp: resolution_ready_def notify_def)
  next
    case (Some p)
    then show ?thesis using r ModelChanged distinct_replace [of m "models s"]
      by (auto simp: resolution_ready_def notify_def send_def split: option.splits prod.splits)
  qed
next
  case (GrammarFactoryCreated defs)
  then show ?thesis using r
    by (simp add: resolution_ready_def onDidCreateGrammarFactory_with_def Let_def killWorker_eq)
next
  case GrammarFactoryDisposed
  then show ?thesis using r
    by (simp add: resolution_ready_def onDidDisposeGrammarFactory_def killWorker_eq)
next
  case (ProxyResolved w)
  have f: "workerProxy (forEach_onModelAdded ms t) = workerProxy t \<and>
           worker (forEach_onModelAdded ms t) = worker t \<and>
           pending (forEach_onModelAdded ms t) = pending t" for ms and t :: "'a TextMateService"
    by (induction ms arbitrary: t)
       (simp_all add: onModelAdded_def send_def Let_def split: option.splits prod.splits)
  show ?thesis using r ProxyResolved
    by (auto simp: resolution_ready_def onProxyResolved_def f models_forEach_onModelAdded)
qed

lemma run_resolution_ready:
  "resolution_ready s \<Longrightarrow> resolution_ready (run flag evs s)"
  by (induction evs arbitrary: s) (simp_all add: step_resolution_ready)

lemma resolution_ready_live_pending:
  "resolution_ready s \<Longrightarrow> w \<in> set (pending s) \<Longrightarrow> worker s = Some w \<Longrightarrow>
   tokenizers s = [] \<and> distinct (map uri (models s))"
  by (cases "workerProxy s") (auto simp: resolution_ready_def)

subsection \<open>Buffers added\<close>

text \<open>
  C8. A buffer-added notification is ignored when no worker proxy is resolved or when the
  buffer is oversized; otherwise a synchronizer is constructed and registered under the
  buffer's URI. Consequently, in every run of the service from its construction, whatever
  the events (attach-state changes included) and whether or not the worker is enabled, a
  URI whose buffers are all oversized never has a synchronizer and no worker call is ever
  about it.
\<close>

theorem oversized_buffer_never_synchronized:
  "(workerProxy (s :: 'g TextMateService) = None \<longrightarrow> onModelAdded m s = s) \<and>
   (isTooLargeForSyncing m \<longrightarrow> onModelAdded m s = s) \<and>
   (workerProxy s = Some p \<and> \<not> isTooLargeForSyncing m \<longrightarrow>
      map_of (tokenizers (onModelAdded m s)) (uri m) =
        Some \<lparr>t_worker = p, t_model = m, isSynced = isAttachedToEditor m, registered = True\<rparr>) \<and>
   (oversized_at u ms \<and> (\<forall>ev\<in>set evs. oversized_at u (event_models ev)) \<longrightarrow>
      map_of (tokenizers (run flag evs (TextMateService_new cfg ms :: 'g TextMateService))) u = None \<and>
      filter (\<lambda>pc. call_uri (snd pc) = u) (sent (run flag evs (TextMateService_new cfg ms))) = [])"
proof (intro conjI impI)
  assume "workerProxy s = None"
  then show "onModelAdded m s = s" by (simp add: onModelAdded_def)
next
  assume "isTooLargeForSyncing m"
  then show "onModelAdded m s = s" by (simp add: onModelAdded_def split: option.splits)
next
  assume "workerProxy s = Some p \<and> \<not> isTooLargeForSyncing m"
  then show "map_of (tokenizers (onModelAdded m s)) (uri m) =
        Some \<lparr>t_worker = p, t_model = m, isSynced = isAttachedToEditor m, registered = True\<rparr>"
    by (simp add: onModelAdded_def new_tokenizer_eq send_def update_conv')
next
  assume h: "oversized_at u ms \<and> (\<forall>ev\<in>set evs. oversized_at u (event_models ev))"
  let ?s0 = "TextMateService_new cfg ms :: 'g TextMateService"
  have q0: "quiet_at u ?s0" by (simp add: new_service_eq quiet_at_def)
  have o0: "oversized_at u (models ?s0)" using h by (simp add: new_service_eq)
  have q: "quiet_at u (run flag evs ?s0)"
    using run_never_syncs_oversized [OF q0 o0] h by blast
  show "map_of (tokenizers (run flag evs ?s0)) u = None"
  proof (cases "map_of (tokenizers (run flag evs ?s0)) u")
    case None
    then show ?thesis .
  next
    case (Some t)
    then have "(u, t) \<in> set (tokenizers (run flag evs ?s0))" by (rule map_of_SomeD)
    then show ?thesis using q by (auto simp: quiet_at_def)
  qed
  show "filter (\<lambda>pc. call_uri (snd pc) = u) (sent (run flag evs ?s0)) = []"
    using q by (auto simp: quiet_at_def filter_empty_conv)
qed

text \<open>
  The three cases of a buffer added, and the run \<open>bigRun\<close>, in which the only call sent is
  the snapshot of the other buffer.
\<close>

lemma bigRun_sent:
  "sent (run True bigRun (TextMateService_new \<lparr>workerOffload = True\<rparr> [bufBig])) =
     [(0, acceptNewModel \<lparr>uri = ''file:///a.ts'', versionId = 1, lines = [''let x''],
                           EOL = [CHR 0x0A], languageId = 7\<rparr>)]"
  by (simp add: bigRun_def new_service_eq onDidCreateGrammarFactory_with_def killWorker_eq
      onProxyResolved_def onModelAdded_def onModelRemoved_def disposeTokenizer_eq notify_def
      new_tokenizer_eq send_def Let_def bufA_def bufBig_def)

theorem oversized_buffer_never_synchronized_witness:
  "workerProxy (TextMateService_new \<lparr>workerOffload = True\<rparr> [bufA] :: unit TextMateService) = None \<and>
   onModelAdded bufA (TextMateService_new \<lparr>workerOffload = True\<rparr> [bufA] :: unit TextMateService) =
     TextMateService_new \<lparr>workerOffload = True\<rparr> [bufA] \<and>
   isTooLargeForSyncing bufBig \<and>
   onModelAdded bufBig (onProxyResolved 0 0 svc1) = onProxyResolved 0 0 svc1 \<and>
   workerProxy (svc1\<lparr>workerProxy := Some 0\<rparr>) = Some 0 \<and>
   \<not> isTooLargeForSyncing bufB \<and>
   map_of (tokenizers (onModelAdded bufB (svc1\<lparr>workerProxy := Some 0\<rparr>))) ''file:///b.ts'' =
     Some \<lparr>t_worker = 0, t_model = bufB, isSynced = False, registered = True\<rparr> \<and>
   oversized_at ''file:///big.ts'' [bufBig] \<and>
   map_of (tokenizers (run True bigRun (TextMateService_new \<lparr>workerOffload = True\<rparr> [bufBig])))
     ''file:///big.ts'' = None \<and>
   filter (\<lambda>pc. call_uri (snd pc) = ''file:///big.ts'')
     (sent (run True bigRun (TextMateService_new \<lparr>workerOffload = True\<rparr> [bufBig]))) = [] \<and>
   sent (run True bigRun (TextMateService_new \<lparr>workerOffload = True\<rparr> [bufBig])) =
     [(0, acceptNewModel \<lparr>uri = ''file:///a.ts'', versionId = 1, lines = [''let x''],
                           EOL = [CHR 0x0A], languageId = 7\<rparr>)]"
proof -
  have p0: "workerProxy (TextMateService_new \<lparr>workerOffload = True\<rparr> [bufA] :: unit TextMateService) = None"
    by (simp add: new_service_eq)
  have big: "isTooLargeForSyncing bufBig" by (simp add: bufBig_def)
  have p1: "workerProxy (svc1\<lparr>workerProxy := Some 0\<rparr>) = Some 0 \<and> \<not> isTooLargeForSyncing bufB"
    by (simp add: bufB_def)
  have h: "oversized_at ''file:///big.ts'' [bufBig] \<and>
           (\<forall>ev\<in>set bigRun. oversized_at ''file:///big.ts'' (event_models ev))"
    by (simp add: oversized_at_def bigRun_def bufBig_def bufA_def)
  note a = oversized_buffer_never_synchronized
    [of "TextMateService_new \<lparr>workerOffload = True\<rparr> [bufA]" bufA, THEN conjunct1, THEN mp, OF p0]
  note b = oversized_buffer_never_synchronized
    [of "onProxyResolved 0 0 svc1" bufBig, THEN conjunct2, THEN conjunct1, THEN mp, OF big]
  note c = oversized_buffer_never_synchronized
    [of "svc1\<lparr>workerProxy := Some 0\<rparr>" bufB 0, THEN conjunct2, THEN conjunct2, THEN conjunct1,
      THEN mp, OF p1]
  note d = oversized_buffer_never_synchronized
    [of svc1 bufA 0 "''file:///big.ts''" "[bufBig]" bigRun True "\<lparr>workerOffload = True\<rparr>",
      THEN conjunct2, THEN conjunct2, THEN conjunct2, THEN mp, OF h]
  show ?thesis
    using p0 a big b p1 c h d bigRun_sent by (simp add: bufB_def)
qed

subsection \<open>Resolution of the proxy\<close>

text \<open>
  C5, as stated: when the proxy future resolves for a worker that is no longer the live
  one, the callback changes nothing; when the worker is still live, it creates
  synchronizers for exactly the known buffers that are attached and not oversized. The
  second part fails: \<^verbatim>\<open>_onModelAdded\<close> does not look at the attach state, so the detached
  buffer \<open>bufB\<close> gets a synchronizer too.
\<close>

theorem detached_buffer_gets_synchronizer_at_catch_up:
  "\<not> (set (map fst (tokenizers (onProxyResolved 0 0 svc1))) =
        set (map uri (filter (\<lambda>m. isAttachedToEditor m \<and> \<not> isTooLargeForSyncing m) (models svc1))))"
  by (simp add: svc1_simp onProxyResolved_def onModelAdded_def new_tokenizer_eq send_def
      bufA_def bufB_def bufBig_def Let_def)

text \<open>
  C5, amended: when the proxy future resolves for a worker that is no longer the live one,
  the callback discards the result: no synchronizer is created and the dictionary, the
  proxy reference and everything else stay as they are. When the worker is still live, the
  proxy is stored and a synchronizer is created for exactly the known buffers that are
  not oversized, attached or not, in the order of the registry; the attached ones among
  them are synced and are sent their snapshot, the detached ones are unsynced and are sent
  nothing. The dictionary is empty and the registry's URIs are distinct whenever the
  pending future of the live worker resolves in a run of the service from its construction
  over buffers of distinct URIs.
\<close>

theorem proxy_resolution_discards_or_catches_up:
  "(worker s \<noteq> Some w \<longrightarrow> onProxyResolved w p s = s) \<and>
   (worker s = Some w \<and> tokenizers s = [] \<and> distinct (map uri (models s)) \<longrightarrow>
      onProxyResolved w p s =
        s\<lparr>workerProxy := Some p,
          tokenizers :=
            map (\<lambda>m. (uri m, \<lparr>t_worker = p, t_model = m, isSynced = isAttachedToEditor m,
                               registered = True\<rparr>))
              (filter (\<lambda>m. \<not> isTooLargeForSyncing m) (models s)),
          sent := sent s @
            map (\<lambda>m. (p, acceptNewModel (snapshot m)))
              (filter (\<lambda>m. \<not> isTooLargeForSyncing m \<and> isAttachedToEditor m) (models s))\<rparr>) \<and>
   (distinct (map uri ms) \<and>
    w \<in> set (pending (run flag evs (TextMateService_new cfg ms :: 'g TextMateService))) \<and>
    worker (run flag evs (TextMateService_new cfg ms :: 'g TextMateService)) = Some w \<longrightarrow>
      tokenizers (run flag evs (TextMateService_new cfg ms :: 'g TextMateService)) = [] \<and>
      distinct (map uri (models (run flag evs (TextMateService_new cfg ms :: 'g TextMateService)))))"
proof (intro conjI impI)
  assume "worker s \<noteq> Some w"
  then show "onProxyResolved w p s = s" by (simp add: onProxyResolved_def)
next
  assume h: "worker s = Some w \<and> tokenizers s = [] \<and> distinct (map uri (models s))"
  let ?s0 = "s\<lparr>workerProxy := Some p\<rparr>"
  have a: "workerProxy ?s0 = Some p" by simp
  have b: "\<forall>m\<in>set (models s). uri m \<notin> fst ` set (tokenizers ?s0)" using h by simp
  have d: "distinct (map uri (models s))" using h by simp
  show "onProxyResolved w p s =
        s\<lparr>workerProxy := Some p,
          tokenizers :=
            map (\<lambda>m. (uri m, \<lparr>t_worker = p, t_model = m, isSynced = isAttachedToEditor m,
                               registered = True\<rparr>))
              (filter (\<lambda>m. \<not> isTooLargeForSyncing m) (models s)),
          sent := sent s @
            map (\<lambda>m. (p, acceptNewModel (snapshot m)))
              (filter (\<lambda>m. \<not> isTooLargeForSyncing m \<and> isAttachedToEditor m) (models s))\<rparr>"
    using h forEach_onModelAdded_eq [OF a d b]
    by (simp add: onProxyResolved_def new_tokenizer_eq)
next
  let ?r = "run flag evs (TextMateService_new cfg ms :: 'g TextMateService)"
  assume h: "distinct (map uri ms) \<and> w \<in> set (pending ?r) \<and> worker ?r = Some w"
  have "resolution_ready (TextMateService_new cfg ms :: 'g TextMateService)"
    using h by (simp add: new_service_eq resolution_ready_def)
  then have "resolution_ready ?r" by (rule run_resolution_ready)
  then have "tokenizers ?r = [] \<and> distinct (map uri (models ?r))"
    using h by (intro resolution_ready_live_pending [of ?r w]) simp_all
  then show "tokenizers ?r = []" and "distinct (map uri (models ?r))" by simp_all
qed

text \<open>
  The service over the three example buffers after the created event: the future of a
  worker that is not the live one, and the future of the live worker.
\<close>

theorem proxy_resolution_discards_or_catches_up_witness:
  "worker svc1 \<noteq> Some 1 \<and> onProxyResolved 1 1 svc1 = svc1 \<and>
   worker svc1 = Some 0 \<and> tokenizers svc1 = [] \<and> distinct (map uri (models svc1)) \<and>
   0 \<in> set (pending svc1) \<and>
   map fst (tokenizers (onProxyResolved 0 0 svc1)) = [''file:///a.ts'', ''file:///b.ts''] \<and>
   map (isSynced \<circ> snd) (tokenizers (onProxyResolved 0 0 svc1)) = [True, False] \<and>
   sent (onProxyResolved 0 0 svc1) =
     [(0, acceptNewModel \<lparr>uri = ''file:///a.ts'', versionId = 1, lines = [''let x''],
                           EOL = [CHR 0x0A], languageId = 7\<rparr>)]"
proof -
  have n: "worker svc1 \<noteq> Some 1" by (simp add: svc1_simp)
  have g: "distinct (map uri [bufA, bufB, bufBig]) \<and>
      0 \<in> set (pending (run True [GrammarFactoryCreated []]
                 (TextMateService_new \<lparr>workerOffload = True\<rparr> [bufA, bufB, bufBig] :: unit TextMateService))) \<and>
      worker (run True [GrammarFactoryCreated []]
                 (TextMateService_new \<lparr>workerOffload = True\<rparr> [bufA, bufB, bufBig] :: unit TextMateService)) = Some 0"
    unfolding svc1_run [symmetric] by (simp add: svc1_simp bufA_def bufB_def bufBig_def)
  note r = proxy_resolution_discards_or_catches_up [of _ 0 _ "[bufA, bufB, bufBig]" True
      "[GrammarFactoryCreated []]" "\<lparr>workerOffload = True\<rparr>",
      THEN conjunct2, THEN conjunct2, THEN mp, OF g, unfolded svc1_run [symmetric]]
  have w: "worker svc1 = Some 0" by (simp add: svc1_simp)
  have h: "worker svc1 = Some 0 \<and> tokenizers svc1 = [] \<and> distinct (map uri (models svc1))"
    using w r by simp
  note d = proxy_resolution_discards_or_catches_up [of svc1 1 1, THEN conjunct1, THEN mp, OF n]
  note c = proxy_resolution_discards_or_catches_up [of svc1 0 0, THEN conjunct2, THEN conjunct1,
      THEN mp, OF h]
  have k: "map fst (tokenizers (onProxyResolved 0 0 svc1)) = [''file:///a.ts'', ''file:///b.ts'']"
    unfolding c by (simp add: svc1_simp bufA_def bufB_def bufBig_def)
  have y: "map (isSynced \<circ> snd) (tokenizers (onProxyResolved 0 0 svc1)) = [True, False]"
    unfolding c by (simp add: svc1_simp bufA_def bufB_def bufBig_def)
  have t: "sent (onProxyResolved 0 0 svc1) =
     [(0, acceptNewModel \<lparr>uri = ''file:///a.ts'', versionId = 1, lines = [''let x''],
                           EOL = [CHR 0x0A], languageId = 7\<rparr>)]"
    unfolding c by (simp add: svc1_simp bufA_def bufB_def bufBig_def)
  have pd: "0 \<in> set (pending svc1)" by (simp add: svc1_simp)
  show ?thesis using n d h pd k y t by simp
qed

subsection \<open>Grammar-set events\<close>

text \<open>
  C9, as stated: on a grammar-set created event the service kills any worker and then
  spawns a new one when worker-offload mode, a configuration toggle read at construction,
  is enabled. The service does not spawn for a configuration that enables the toggle: the
  test is on the constant \<^verbatim>\<open>RUN_TEXTMATE_IN_WORKER\<close>, which is false, and the constructor
  reads nothing of the configuration.
\<close>

theorem created_event_with_toggle_on_spawns_nothing:
  "\<not> (\<exists>w. worker (onDidCreateGrammarFactory ([] :: unit list)
                   (TextMateService_new \<lparr>workerOffload = True\<rparr> [bufA])) = Some w)"
  by (simp add: onDidCreateGrammarFactory_def onDidCreateGrammarFactory_with_def
      RUN_TEXTMATE_IN_WORKER_def new_service_eq killWorker_eq)

text \<open>
  C9, amended: on a grammar-set created event the service first kills any existing worker
  and then spawns a new worker only if the module-level constant \<^verbatim>\<open>RUN_TEXTMATE_IN_WORKER\<close>
  is true. The constant is false in this file and no configuration value is consulted, so
  the created event kills and spawns nothing, whatever the configuration the service was
  constructed with. On a grammar-set disposed event the service kills the worker with no
  respawn. The first seven equations are the event with the value of the constant as a
  parameter.
\<close>

theorem grammar_factory_events_kill_then_spawn_by_constant:
  "worker (onDidCreateGrammarFactory_with flag defs s) =
     (if flag then Some (length (created s)) else None) \<and>
   created (onDidCreateGrammarFactory_with flag defs s) =
     (if flag then created s @ [defs] else created s) \<and>
   pending (onDidCreateGrammarFactory_with flag defs s) =
     (if flag then pending s @ [length (created s)] else pending s) \<and>
   workerProxy (onDidCreateGrammarFactory_with flag defs s) = None \<and>
   tokenizers (onDidCreateGrammarFactory_with flag defs s) = [] \<and>
   disposedWorkers (onDidCreateGrammarFactory_with flag defs s) =
     disposedWorkers s @ (case worker s of Some w \<Rightarrow> [w] | None \<Rightarrow> []) \<and>
   sent (onDidCreateGrammarFactory_with flag defs s) =
     sent s @ map (\<lambda>(key, t). (t_worker t, acceptRemovedModel (uri (t_model t)))) (tokenizers s) \<and>
   onDidCreateGrammarFactory defs s = onDidCreateGrammarFactory_with False defs s \<and>
   onDidCreateGrammarFactory defs s = killWorker s \<and>
   onDidCreateGrammarFactory defs (TextMateService_new cfg ms) =
     onDidCreateGrammarFactory defs (TextMateService_new cfg' ms) \<and>
   onDidDisposeGrammarFactory s = killWorker s \<and>
   worker (onDidDisposeGrammarFactory s) = None \<and>
   created (onDidDisposeGrammarFactory s) = created s \<and>
   pending (onDidDisposeGrammarFactory s) = pending s"
  by (simp add: onDidCreateGrammarFactory_def onDidCreateGrammarFactory_with_def
      onDidDisposeGrammarFactory_def RUN_TEXTMATE_IN_WORKER_def killWorker_eq
      TextMateService_new_def Let_def)

text \<open>
  The events on the service whose worker 0 is live and resolved: with the constant true a
  worker 1 would be spawned after worker 0 is disposed; as the file has it, none is.
\<close>

theorem grammar_factory_events_kill_then_spawn_by_constant_witness:
  "worker (onDidCreateGrammarFactory_with True ([] :: unit list) (onProxyResolved 0 0 svc1)) = Some 1 \<and>
   disposedWorkers (onDidCreateGrammarFactory_with True ([] :: unit list) (onProxyResolved 0 0 svc1)) = [0] \<and>
   worker (onDidCreateGrammarFactory_with False ([] :: unit list) (onProxyResolved 0 0 svc1)) = None \<and>
   worker (onDidCreateGrammarFactory ([] :: unit list) (onProxyResolved 0 0 svc1)) = None \<and>
   created (onDidCreateGrammarFactory ([] :: unit list) (onProxyResolved 0 0 svc1)) = [[]] \<and>
   worker (onDidDisposeGrammarFactory (onProxyResolved 0 0 svc1)) = None \<and>
   created (onDidDisposeGrammarFactory (onProxyResolved 0 0 svc1)) = [[]]"
  using grammar_factory_events_kill_then_spawn_by_constant
      [of True "[] :: unit list" "onProxyResolved 0 0 svc1"]
    grammar_factory_events_kill_then_spawn_by_constant
      [of False "[] :: unit list" "onProxyResolved 0 0 svc1"]
  by (simp add: svc2_eq killWorker_eq)

end
